theory Spec2Isabelle
  imports Complex_Main
begin

section \<open>Rotations\<close>

text \<open>
  The control loop of \<^verbatim>\<open>quadruped_control.cpp\<close> works on \<^verbatim>\<open>Eigen::Matrix3d\<close>,
  \<^verbatim>\<open>Eigen::Vector3d\<close> and \<^verbatim>\<open>Eigen::AngleAxisd\<close> values. A \<^verbatim>\<open>double\<close> is modelled as a
  real number (rounding is outside the model), a vector as a triple and a matrix as the
  triple of its rows.
\<close>

type_synonym vec3 = "real \<times> real \<times> real"
type_synonym mat3 = "vec3 \<times> vec3 \<times> vec3"

definition UnitX :: vec3 where "UnitX = (1, 0, 0)"
definition UnitY :: vec3 where "UnitY = (0, 1, 0)"
definition UnitZ :: vec3 where "UnitZ = (0, 0, 1)"

definition Identity3 :: mat3 where
  "Identity3 = ((1, 0, 0), (0, 1, 0), (0, 0, 1))"

fun mat_transpose :: "mat3 \<Rightarrow> mat3" where
  "mat_transpose ((a00, a01, a02), (a10, a11, a12), (a20, a21, a22)) =
     ((a00, a10, a20), (a01, a11, a21), (a02, a12, a22))"

fun mat_mul :: "mat3 \<Rightarrow> mat3 \<Rightarrow> mat3" where
  "mat_mul ((a00, a01, a02), (a10, a11, a12), (a20, a21, a22))
           ((b00, b01, b02), (b10, b11, b12), (b20, b21, b22)) =
     ((a00 * b00 + a01 * b10 + a02 * b20,
       a00 * b01 + a01 * b11 + a02 * b21,
       a00 * b02 + a01 * b12 + a02 * b22),
      (a10 * b00 + a11 * b10 + a12 * b20,
       a10 * b01 + a11 * b11 + a12 * b21,
       a10 * b02 + a11 * b12 + a12 * b22),
      (a20 * b00 + a21 * b10 + a22 * b20,
       a20 * b01 + a21 * b11 + a22 * b21,
       a20 * b02 + a21 * b12 + a22 * b22))"

record angle_axis =
  angle :: real
  axis :: vec3

text \<open>
  \<^verbatim>\<open>AngleAxisd::toRotationMatrix\<close>: the rotation by \<open>angle\<close> about the unit vector
  \<open>axis\<close> (Rodrigues' formula, entry by entry as Eigen fills the matrix).
\<close>

definition toRotationMatrix :: "angle_axis \<Rightarrow> mat3" where
  "toRotationMatrix aa =
     (case axis aa of (x, y, z) \<Rightarrow>
        let s = sin (angle aa); c = cos (angle aa) in
        (((1 - c) * x * x + c, (1 - c) * x * y - s * z, (1 - c) * x * z + s * y),
         ((1 - c) * x * y + s * z, (1 - c) * y * y + c, (1 - c) * y * z - s * x),
         ((1 - c) * x * z - s * y, (1 - c) * y * z + s * x, (1 - c) * z * z + c)))"

text \<open>
  The conversion \<^verbatim>\<open>AngleAxisd(matrix)\<close> of a rotation matrix into an angle and an axis is
  library code outside the repository, and the state machine takes it as a parameter
  \<open>F\<close>. The instance \<open>eigen_fromRotationMatrix\<close> below follows Eigen 3.3 over the reals
  (matrix to quaternion, quaternion to angle and axis) and is what closed examples run.
\<close>

definition atan2 :: "real \<Rightarrow> real \<Rightarrow> real" where
  "atan2 y x =
     (if 0 < x then arctan (y / x)
      else if x < 0 \<and> 0 \<le> y then arctan (y / x) + pi
      else if x < 0 then arctan (y / x) - pi
      else if 0 < y then pi / 2
      else if y < 0 then - (pi / 2)
      else 0)"

fun quaternion_of_matrix :: "mat3 \<Rightarrow> real \<times> vec3" where
  "quaternion_of_matrix ((m00, m01, m02), (m10, m11, m12), (m20, m21, m22)) =
     (let t = m00 + m11 + m22 in
      if 0 < t then
        (let r = sqrt (t + 1); u = (1 / 2) / r in
         (r / 2, ((m21 - m12) * u, (m02 - m20) * u, (m10 - m01) * u)))
      else
        (let i = (if m00 < m11 then (1::nat) else 0);
             i = (if (if i = 1 then m11 else m00) < m22 then 2 else i) in
         if i = 0 then
           (let r = sqrt (m00 - m11 - m22 + 1); u = (1 / 2) / r in
            ((m21 - m12) * u, (r / 2, (m10 + m01) * u, (m20 + m02) * u)))
         else if i = 1 then
           (let r = sqrt (m11 - m22 - m00 + 1); u = (1 / 2) / r in
            ((m02 - m20) * u, ((m01 + m10) * u, r / 2, (m21 + m12) * u)))
         else
           (let r = sqrt (m22 - m00 - m11 + 1); u = (1 / 2) / r in
            ((m10 - m01) * u, ((m02 + m20) * u, (m12 + m21) * u, r / 2)))))"

definition eigen_fromRotationMatrix :: "mat3 \<Rightarrow> angle_axis" where
  "eigen_fromRotationMatrix m =
     (case quaternion_of_matrix m of (w, (x, y, z)) \<Rightarrow>
        let n = sqrt (x * x + y * y + z * z) in
        if n \<noteq> 0 then
          (let n' = (if w < 0 then - n else n) in
           \<lparr>angle = 2 * atan2 n \<bar>w\<bar>, axis = (x / n', y / n', z / n')\<rparr>)
        else \<lparr>angle = 0, axis = (1, 0, 0)\<rparr>)"

section \<open>The control thread of \<^verbatim>\<open>quadruped_control.cpp\<close>\<close>

datatype ctrl_state_type =
    HEXA_CTRL_STAND_UP_PLAN
  | HEXA_CTRL_STAND_UP
  | QUAD_CTRL_STAND_UP1
  | QUAD_CTRL_STAND_UP2
  | QUAD_CTRL_STAND_UP3
  | QUAD_CTRL_NORMAL_LEFT
  | QUAD_CTRL_NORMAL_RIGHT
  | QUAD_CTRL_ORIENT
  | QUAD_CTRL_PASSIVE_ORIENT
  | CTRL_STATES_COUNT

datatype SwingMode = swing_mode_virtualLeg1 | swing_mode_virtualLeg2

text \<open>
  The \<^verbatim>\<open>Quadruped\<close> object, the input manager, the Qt application and the standard
  output are outside the thread: what the thread does to them in one iteration is the
  list of its calls, in order; what they return is an input of the iteration.
\<close>

datatype quad_call =
    Sleep int
  | InputUpdate
  | AppExit
  | PlanStandUpTraj real
  | ExecStandUpTraj real
  | PrintState real
  | SpreadAllLegs
  | PushAllLegs real real
  | PrepareQuadMode
  | StartBodyRUpdate
  | GetBodyR
  | RunTest SwingMode real real
  | PrepareTrajectories SwingMode real
  | PrintAxes real real
  | ReOrient mat3

text \<open>
  A \<^verbatim>\<open>steady_clock::time_point\<close> is its count of nanoseconds, an integer. The variables
  the lambda of the control thread owns or captures by reference:
\<close>

record ctrl =
  cur_ctrl_state :: ctrl_state_type
  prev_time :: int
  dt :: real
  state_enter_time :: int
  state_curr_time :: int
  state_run_time :: real
  isFinished :: bool
  bodyR :: mat3
  balance_body_R :: mat3
  diff_body_R :: mat3
  control_R :: mat3
  tmp_aa :: angle_axis
  axis_aa :: vec3
  translation_velocity_cmd :: vec3
  rotation_velocity_cmd :: vec3

text \<open>
  What one iteration reads from outside: \<open>clock_wait\<close> and \<open>clock_tick\<close> are the two
  \<^verbatim>\<open>steady_clock::now()\<close> of lines 109 and 114 (before and after the sleep),
  \<open>clock_state\<close> the one a state takes for \<^verbatim>\<open>state_curr_time\<close>, \<open>clock_enter\<close> the one
  taken on a transition for \<^verbatim>\<open>state_enter_time\<close>; \<open>finished_in\<close> is what
  \<^verbatim>\<open>spreadAllLegs\<close>, \<^verbatim>\<open>pushAllLegs\<close> or \<^verbatim>\<open>prepareQuadMode\<close> returns, \<open>bodyR_in\<close> what
  \<^verbatim>\<open>getBodyR\<close> returns.
\<close>

record tick_in =
  clock_wait :: int
  clock_tick :: int
  quit_button :: bool
  translation_in :: vec3
  rotation_in :: vec3
  clock_state :: int
  clock_enter :: int
  finished_in :: bool
  bodyR_in :: mat3
  right_vert :: real
  left_vert :: real

definition startup_seconds :: real where "startup_seconds = 19 / 10"
definition leg_swing_time :: real where "leg_swing_time = 1 / 2"
definition interval_ms :: int where "interval_ms = 5"

text \<open>
  \<^verbatim>\<open>duration_cast<duration<double>>\<close> of a difference of time points: seconds, the
  count divided by \<open>10^9\<close>. (In \<^verbatim>\<open>double\<close> the quotient is rounded; for a count below
  \<open>2^53\<close> its comparison with the literals 1.9 and 0.5 comes out as that of the exact
  quotient with 19/10 and 1/2.)
\<close>

definition seconds_of :: "int \<Rightarrow> real" where
  "seconds_of d = real_of_int d / 1000000000"

text \<open>
  \<^verbatim>\<open>duration_cast<milliseconds>\<close> divides the nanosecond count by 1000000 as C++
  divides integers, rounding towards zero; the cast \<^verbatim>\<open>(int)\<close> keeps the low 32 bits, signed.
\<close>

definition trunc_div :: "int \<Rightarrow> int \<Rightarrow> int" where
  "trunc_div a b = (if a < 0 then - ((- a) div b) else a div b)"

definition int_cast :: "int \<Rightarrow> int" where
  "int_cast x = (x + 2147483648) mod 4294967296 - 2147483648"

definition need_to_wait :: "int \<Rightarrow> int \<Rightarrow> int" where
  "need_to_wait prev now =
     max 0 (int_cast (trunc_div (prev + interval_ms * 1000000 - now) 1000000))"

text \<open>
  Lines 108 to 128: the wait, \<^verbatim>\<open>dt\<close>, the joystick update. (\<^verbatim>\<open>elapsed_time\<close> of line
  118 is computed and read nowhere; it is left out.)
\<close>

definition tick_prologue :: "ctrl \<Rightarrow> tick_in \<Rightarrow> ctrl \<times> quad_call list" where
  "tick_prologue s i =
     (s\<lparr>dt := seconds_of (clock_tick i - prev_time s),
         prev_time := clock_tick i,
         translation_velocity_cmd := translation_in i,
         rotation_velocity_cmd := rotation_in i\<rparr>,
      [Sleep (need_to_wait (prev_time s) (clock_wait i)), InputUpdate]
        @ (if quit_button i then [AppExit] else []))"

text \<open>
  The first two statements of every timed state: read the clock, take the time since
  the state was entered.
\<close>

definition read_state_clock :: "ctrl \<Rightarrow> tick_in \<Rightarrow> ctrl" where
  "read_state_clock s i =
     s\<lparr>state_curr_time := clock_state i,
       state_run_time := seconds_of (clock_state i - state_enter_time s)\<rparr>"

text \<open>Lines 132 to 272: the \<^verbatim>\<open>switch\<close> on \<^verbatim>\<open>cur_ctrl_state\<close>, one equation a case.\<close>

fun state_action ::
  "(mat3 \<Rightarrow> angle_axis) \<Rightarrow> ctrl_state_type \<Rightarrow> ctrl \<Rightarrow> tick_in \<Rightarrow> ctrl \<times> quad_call list"
where
  "state_action F HEXA_CTRL_STAND_UP_PLAN s i =
     (s\<lparr>cur_ctrl_state := HEXA_CTRL_STAND_UP, state_enter_time := clock_enter i\<rparr>,
      [PlanStandUpTraj startup_seconds])"
| "state_action F HEXA_CTRL_STAND_UP s i =
     (let s1 = read_state_clock s i;
          c = [ExecStandUpTraj (state_run_time s1), PrintState (state_run_time s1)] in
      if startup_seconds \<le> state_run_time s1
      then (s1\<lparr>cur_ctrl_state := QUAD_CTRL_NORMAL_LEFT\<rparr>, c)
      else (s1, c))"
| "state_action F QUAD_CTRL_STAND_UP1 s i =
     (let s1 = (read_state_clock s i)\<lparr>isFinished := finished_in i\<rparr> in
      if startup_seconds \<le> state_run_time s1
      then (s1\<lparr>cur_ctrl_state := QUAD_CTRL_STAND_UP2, state_enter_time := clock_enter i\<rparr>,
            [SpreadAllLegs])
      else (s1, [SpreadAllLegs]))"
| "state_action F QUAD_CTRL_STAND_UP2 s i =
     (let s1 = (read_state_clock s i)\<lparr>isFinished := finished_in i\<rparr>;
          c = [PushAllLegs (state_run_time s1) startup_seconds] in
      if startup_seconds \<le> state_run_time s1
      then (s1\<lparr>cur_ctrl_state := QUAD_CTRL_STAND_UP3, state_enter_time := clock_enter i\<rparr>,
            c @ [StartBodyRUpdate])
      else (s1, c))"
| "state_action F QUAD_CTRL_STAND_UP3 s i =
     (let s1 = (read_state_clock s i)\<lparr>isFinished := finished_in i\<rparr> in
      if startup_seconds \<le> state_run_time s1
      then (s1\<lparr>cur_ctrl_state := QUAD_CTRL_PASSIVE_ORIENT,
               balance_body_R := bodyR_in i,
               state_enter_time := clock_enter i\<rparr>,
            [PrepareQuadMode, GetBodyR])
      else (s1, [PrepareQuadMode]))"
| "state_action F QUAD_CTRL_NORMAL_LEFT s i =
     (let s1 = read_state_clock s i;
          c = [RunTest swing_mode_virtualLeg1 (state_run_time s1) leg_swing_time] in
      if leg_swing_time \<le> state_run_time s1
      then (s1\<lparr>cur_ctrl_state := QUAD_CTRL_NORMAL_RIGHT, state_enter_time := clock_enter i\<rparr>,
            c @ [PrepareTrajectories swing_mode_virtualLeg2 leg_swing_time])
      else (s1, c))"
| "state_action F QUAD_CTRL_NORMAL_RIGHT s i =
     (let s1 = read_state_clock s i;
          c = [RunTest swing_mode_virtualLeg2 (state_run_time s1) leg_swing_time] in
      if leg_swing_time \<le> state_run_time s1
      then (s1\<lparr>cur_ctrl_state := QUAD_CTRL_NORMAL_LEFT, state_enter_time := clock_enter i\<rparr>,
            c @ [PrepareTrajectories swing_mode_virtualLeg1 leg_swing_time])
      else (s1, c))"
| "state_action F QUAD_CTRL_ORIENT s i =
     (let s1 = read_state_clock s i;
          target_body_R =
            mat_mul
              (mat_mul
                 (toRotationMatrix \<lparr>angle = 0 / 180 * pi, axis = UnitZ\<rparr>)
                 (toRotationMatrix \<lparr>angle = right_vert i * 16 / 180 * pi, axis = UnitY\<rparr>))
              (toRotationMatrix \<lparr>angle = left_vert i * 16 / 180 * pi, axis = UnitX\<rparr>) in
      (s1, [StartBodyRUpdate, PrintAxes (right_vert i) (left_vert i), ReOrient target_body_R]))"
| "state_action F QUAD_CTRL_PASSIVE_ORIENT s i =
     (let s1 = read_state_clock s i;
          s2 = s1\<lparr>bodyR := bodyR_in i\<rparr>;
          s3 = s2\<lparr>diff_body_R := mat_mul (balance_body_R s2) (mat_transpose (bodyR s2))\<rparr>;
          s4 = s3\<lparr>tmp_aa := F (diff_body_R s3)\<rparr>;
          s5 = s4\<lparr>tmp_aa := (tmp_aa s4)\<lparr>angle := 31 / 1000 * angle (tmp_aa s4)\<rparr>\<rparr>;
          s6 = s5\<lparr>axis_aa := axis (tmp_aa s5)\<rparr>;
          s7 = s6\<lparr>control_R := mat_mul (control_R s6) (toRotationMatrix (tmp_aa s6))\<rparr> in
      (s7, [StartBodyRUpdate, GetBodyR, ReOrient (control_R s7)]))"
| "state_action F CTRL_STATES_COUNT s i = (s, [])"

text \<open>One iteration of the \<^verbatim>\<open>while\<close> loop of the control thread.\<close>

definition tick :: "(mat3 \<Rightarrow> angle_axis) \<Rightarrow> ctrl \<Rightarrow> tick_in \<Rightarrow> ctrl \<times> quad_call list" where
  "tick F s i =
     (let p = tick_prologue s i;
          a = state_action F (cur_ctrl_state (fst p)) (fst p) i in
      (fst a, snd p @ snd a))"

text \<open>
  The loop, over the inputs of the iterations it runs (the list ends where the loop
  reads \<^verbatim>\<open>control_execute\<close> as false, or where the observation stops): \<open>run\<close> is the
  state it reaches, \<open>calls\<close> the calls of each iteration.
\<close>

fun run :: "(mat3 \<Rightarrow> angle_axis) \<Rightarrow> ctrl \<Rightarrow> tick_in list \<Rightarrow> ctrl" where
  "run F s [] = s"
| "run F s (i # is) = run F (fst (tick F s i)) is"

fun calls :: "(mat3 \<Rightarrow> angle_axis) \<Rightarrow> ctrl \<Rightarrow> tick_in list \<Rightarrow> quad_call list list" where
  "calls F s [] = []"
| "calls F s (i # is) = snd (tick F s i) # calls F (fst (tick F s i)) is"

text \<open>
  The variables as the thread starts (lines 74 to 105): \<open>te\<close> and \<open>tc\<close> are the clock
  readings of lines 76 and 77, \<open>tp\<close> the one of line 88. The variables that C++ leaves
  uninitialised are those of \<open>u\<close>.
\<close>

definition initial_ctrl :: "int \<Rightarrow> int \<Rightarrow> int \<Rightarrow> ctrl \<Rightarrow> ctrl" where
  "initial_ctrl te tc tp u =
     u\<lparr>cur_ctrl_state := QUAD_CTRL_STAND_UP1,
       prev_time := tp,
       dt := 0,
       state_enter_time := te,
       state_curr_time := tc,
       state_run_time := 0,
       control_R := Identity3,
       translation_velocity_cmd := (0, 0, 0),
       rotation_velocity_cmd := (0, 0, 0)\<rparr>"

section \<open>Notions the statements use\<close>

text \<open>
  The stand-up scenario runs on a simulated clock that is read at tick \<open>k1\<close> when
  1.9 s have passed, at tick \<open>k2\<close> at 3.8 s and at tick \<open>k3\<close> at 5.7 s. After \<open>n\<close>
  iterations the scenario expects the state \<open>phase_after k1 k2 k3 n\<close>, entered at the
  clock reading \<open>entered_after k1 k2 k3 n\<close> (nanoseconds).
\<close>

definition phase_after :: "nat \<Rightarrow> nat \<Rightarrow> nat \<Rightarrow> nat \<Rightarrow> ctrl_state_type" where
  "phase_after k1 k2 k3 n =
     (if n \<le> k1 then QUAD_CTRL_STAND_UP1
      else if n \<le> k2 then QUAD_CTRL_STAND_UP2
      else if n \<le> k3 then QUAD_CTRL_STAND_UP3
      else QUAD_CTRL_PASSIVE_ORIENT)"

definition entered_after :: "nat \<Rightarrow> nat \<Rightarrow> nat \<Rightarrow> nat \<Rightarrow> int" where
  "entered_after k1 k2 k3 n =
     (if n \<le> k1 then 0
      else if n \<le> k2 then 1900000000
      else if n \<le> k3 then 3800000000
      else 5700000000)"

text \<open>Concrete values for the closed examples.\<close>

definition blank_ctrl :: ctrl where
  "blank_ctrl =
     \<lparr>cur_ctrl_state = CTRL_STATES_COUNT, prev_time = 0, dt = 0, state_enter_time = 0,
      state_curr_time = 0, state_run_time = 0, isFinished = False,
      bodyR = Identity3, balance_body_R = Identity3, diff_body_R = Identity3,
      control_R = Identity3, tmp_aa = \<lparr>angle = 0, axis = (1, 0, 0)\<rparr>, axis_aa = (1, 0, 0),
      translation_velocity_cmd = (0, 0, 0), rotation_velocity_cmd = (0, 0, 0)\<rparr>"

text \<open>
  An iteration of a simulated clock: every clock read of the iteration returns \<open>t\<close>,
  the body orientation read is \<open>R\<close>, the joystick is at rest.
\<close>

definition sim_tick :: "int \<Rightarrow> mat3 \<Rightarrow> tick_in" where
  "sim_tick t R =
     \<lparr>clock_wait = t, clock_tick = t, quit_button = False,
      translation_in = (0, 0, 0), rotation_in = (0, 0, 0),
      clock_state = t, clock_enter = t, finished_in = False,
      bodyR_in = R, right_vert = 0, left_vert = 0\<rparr>"

text \<open>The rotation about the z axis whose cosine is 7/25 and whose sine is 24/25.\<close>

definition tilt_R :: mat3 where
  "tilt_R = ((7 / 25, - (24 / 25), 0), (24 / 25, 7 / 25, 0), (0, 0, 1))"

definition passive_ctrl :: ctrl where
  "passive_ctrl = blank_ctrl\<lparr>cur_ctrl_state := QUAD_CTRL_PASSIVE_ORIENT\<rparr>"

definition gait_ctrl :: ctrl where
  "gait_ctrl = blank_ctrl\<lparr>cur_ctrl_state := QUAD_CTRL_NORMAL_LEFT\<rparr>"




definition orient_ctrl :: ctrl where
  "orient_ctrl = blank_ctrl\<lparr>cur_ctrl_state := QUAD_CTRL_ORIENT\<rparr>"

text \<open>
  Two runs that differ in the velocity commands only: the state and the inputs with the
  velocity commands blanked.
\<close>

definition without_velocity :: "ctrl \<Rightarrow> ctrl" where
  "without_velocity s =
     s\<lparr>translation_velocity_cmd := (0, 0, 0), rotation_velocity_cmd := (0, 0, 0)\<rparr>"

definition without_velocity_in :: "tick_in \<Rightarrow> tick_in" where
  "without_velocity_in i = i\<lparr>translation_in := (0, 0, 0), rotation_in := (0, 0, 0)\<rparr>"

text \<open>
  The rotation with the given yaw (about z), pitch (about y) and roll (about x), entry by
  entry: what the statement about \<open>QUAD_CTRL_ORIENT\<close> compares the target with.
\<close>

definition euler_zyx :: "real \<Rightarrow> real \<Rightarrow> real \<Rightarrow> mat3" where
  "euler_zyx yaw pitch roll =
     ((cos yaw * cos pitch,
       cos yaw * sin pitch * sin roll - sin yaw * cos roll,
       cos yaw * sin pitch * cos roll + sin yaw * sin roll),
      (sin yaw * cos pitch,
       sin yaw * sin pitch * sin roll + cos yaw * cos roll,
       sin yaw * sin pitch * cos roll - cos yaw * sin roll),
      (- sin pitch, cos pitch * sin roll, cos pitch * cos roll))"


fun group_of :: "ctrl_state_type \<Rightarrow> SwingMode" where
  "group_of QUAD_CTRL_NORMAL_RIGHT = swing_mode_virtualLeg2"
| "group_of st = swing_mode_virtualLeg1"

fun other_gait :: "ctrl_state_type \<Rightarrow> ctrl_state_type" where
  "other_gait QUAD_CTRL_NORMAL_LEFT = QUAD_CTRL_NORMAL_RIGHT"
| "other_gait QUAD_CTRL_NORMAL_RIGHT = QUAD_CTRL_NORMAL_LEFT"
| "other_gait st = st"

section \<open>Inverse kinematics of a leg and the leg commands\<close>

text \<open>
  Modelled from the spec: the body of \<^verbatim>\<open>QuadLeg::computeIK\<close>. The sources hold its
  declaration only (\<^verbatim>\<open>bool computeIK(Eigen::VectorXd& angles, Eigen::VectorXd& ee_pos)\<close>
  in \<^verbatim>\<open>quadruped_leg.hpp\<close>, three joints a leg). The spec (4.1, 8): given a foot target in
  the leg's frame and a seed, \<^verbatim>\<open>computeIK\<close> returns joint angles or fails; it fails with
  \<^verbatim>\<open>UnreachableTarget\<close> when the distance of the target from the hip is greater than the
  sum of the link lengths or less than the absolute value of their difference. Inside
  the workspace the angles are those of the kinematic model's \<^verbatim>\<open>solveIK(seed, target)\<close>
  (spec 6, an outside collaborator that returns angles or no solution), here \<open>solveIK\<close>.
\<close>

datatype ik_error = UnreachableTarget

record leg_geometry =
  upper_link :: real
  lower_link :: real

fun hip_distance :: "vec3 \<Rightarrow> real" where
  "hip_distance (x, y, z) = sqrt (x * x + y * y + z * z)"

definition computeIK ::
  "(vec3 \<Rightarrow> vec3 \<Rightarrow> vec3 option) \<Rightarrow> leg_geometry \<Rightarrow> vec3 \<Rightarrow> vec3 \<Rightarrow> ik_error + vec3"
where
  "computeIK solveIK g target seed =
     (if upper_link g + lower_link g < hip_distance target
         \<or> hip_distance target < \<bar>upper_link g - lower_link g\<bar>
      then Inl UnreachableTarget
      else (case solveIK seed target of
              None \<Rightarrow> Inl UnreachableTarget
            | Some a \<Rightarrow> Inr a))"

text \<open>
  Modelled from the spec: the controller's update of the leg commands in a tick
  (\<^verbatim>\<open>quadruped.cpp\<close> is not among the sources). The spec (4.4, 7b): when the IK call of a
  leg fails, the controller holds the previous tick's command for that leg and reports
  the failure; when the failure persists for more than a bounded number of consecutive
  ticks (\<open>bound\<close>; the spec gives no number) it escalates to a safe stop, still holding
  position. A leg's command is its three joint angles, with the count of consecutive
  failures; the tick returns the new commands, the reported failures (leg index and
  error) and whether it escalates.
\<close>

record leg_command =
  joint_cmd :: vec3
  ik_failures :: nat

definition command_leg :: "ik_error + vec3 \<Rightarrow> leg_command \<Rightarrow> leg_command" where
  "command_leg r c =
     (case r of
        Inr a \<Rightarrow> \<lparr>joint_cmd = a, ik_failures = 0\<rparr>
      | Inl e \<Rightarrow> c\<lparr>ik_failures := Suc (ik_failures c)\<rparr>)"

fun ik_reports :: "nat \<Rightarrow> (ik_error + vec3) list \<Rightarrow> (nat \<times> ik_error) list" where
  "ik_reports k [] = []"
| "ik_reports k (Inl e # rs) = (k, e) # ik_reports (Suc k) rs"
| "ik_reports k (Inr a # rs) = ik_reports (Suc k) rs"

definition command_legs ::
  "nat \<Rightarrow> (ik_error + vec3) list \<Rightarrow> leg_command list
     \<Rightarrow> leg_command list \<times> (nat \<times> ik_error) list \<times> bool"
where
  "command_legs bound rs cs =
     (let cs' = map2 command_leg rs cs in
      (cs', ik_reports 0 rs, list_ex (\<lambda>c. bound < ik_failures c) cs'))"


section \<open>Facts about one iteration and about runs\<close>

lemma run_append: "run F s (xs @ ys) = run F (run F s xs) ys"
  by (induction xs arbitrary: s) simp_all

lemma run_take_Suc:
  "n < length ts \<Longrightarrow> run F s (take (Suc n) ts) = fst (tick F (run F s (take n ts)) (ts ! n))"
  by (simp add: take_Suc_conv_app_nth run_append)

lemma startup_reached: "(startup_seconds \<le> seconds_of d) = (1900000000 \<le> d)"
  by (simp add: startup_seconds_def seconds_of_def field_simps)

lemma seconds_of_startup:
  "(seconds_of d = startup_seconds) = (d = 1900000000)"
  "(seconds_of d = 2 * startup_seconds) = (d = 3800000000)"
  "(seconds_of d = 3 * startup_seconds) = (d = 5700000000)"
  by (simp_all add: startup_seconds_def seconds_of_def field_simps)

lemma prologue_keeps:
  "cur_ctrl_state (fst (tick_prologue s i)) = cur_ctrl_state s"
  "state_enter_time (fst (tick_prologue s i)) = state_enter_time s"
  "balance_body_R (fst (tick_prologue s i)) = balance_body_R s"
  "control_R (fst (tick_prologue s i)) = control_R s"
  by (simp_all add: tick_prologue_def)

lemma read_state_clock_keeps:
  "cur_ctrl_state (read_state_clock s i) = cur_ctrl_state s"
  "state_enter_time (read_state_clock s i) = state_enter_time s"
  "balance_body_R (read_state_clock s i) = balance_body_R s"
  "control_R (read_state_clock s i) = control_R s"
  by (simp_all add: read_state_clock_def)

lemma tick_STAND_UP1:
  "cur_ctrl_state s = QUAD_CTRL_STAND_UP1 \<Longrightarrow>
   fst (tick F s i) =
     (if 1900000000 \<le> clock_state i - state_enter_time s
      then (read_state_clock (fst (tick_prologue s i)) i)
             \<lparr>isFinished := finished_in i, cur_ctrl_state := QUAD_CTRL_STAND_UP2,
              state_enter_time := clock_enter i\<rparr>
      else (read_state_clock (fst (tick_prologue s i)) i)\<lparr>isFinished := finished_in i\<rparr>)"
  by (simp add: tick_def tick_prologue_def read_state_clock_def Let_def startup_reached)

lemma tick_STAND_UP2:
  "cur_ctrl_state s = QUAD_CTRL_STAND_UP2 \<Longrightarrow>
   fst (tick F s i) =
     (if 1900000000 \<le> clock_state i - state_enter_time s
      then (read_state_clock (fst (tick_prologue s i)) i)
             \<lparr>isFinished := finished_in i, cur_ctrl_state := QUAD_CTRL_STAND_UP3,
              state_enter_time := clock_enter i\<rparr>
      else (read_state_clock (fst (tick_prologue s i)) i)\<lparr>isFinished := finished_in i\<rparr>)"
  by (simp add: tick_def tick_prologue_def read_state_clock_def Let_def startup_reached)

lemma tick_STAND_UP3:
  "cur_ctrl_state s = QUAD_CTRL_STAND_UP3 \<Longrightarrow>
   fst (tick F s i) =
     (if 1900000000 \<le> clock_state i - state_enter_time s
      then (read_state_clock (fst (tick_prologue s i)) i)
             \<lparr>isFinished := finished_in i, cur_ctrl_state := QUAD_CTRL_PASSIVE_ORIENT,
              balance_body_R := bodyR_in i, state_enter_time := clock_enter i\<rparr>
      else (read_state_clock (fst (tick_prologue s i)) i)\<lparr>isFinished := finished_in i\<rparr>)"
  by (simp add: tick_def tick_prologue_def read_state_clock_def Let_def startup_reached)

lemma tick_PASSIVE_keeps:
  assumes "cur_ctrl_state s = QUAD_CTRL_PASSIVE_ORIENT"
  shows "cur_ctrl_state (fst (tick F s i)) = QUAD_CTRL_PASSIVE_ORIENT"
    and "balance_body_R (fst (tick F s i)) = balance_body_R s"
    and "state_enter_time (fst (tick F s i)) = state_enter_time s"
  using assms by (simp_all add: tick_def tick_prologue_def read_state_clock_def Let_def)

lemma run_PASSIVE_keeps:
  "cur_ctrl_state s = QUAD_CTRL_PASSIVE_ORIENT \<Longrightarrow>
   cur_ctrl_state (run F s ts) = QUAD_CTRL_PASSIVE_ORIENT \<and>
   balance_body_R (run F s ts) = balance_body_R s"
  by (induction ts arbitrary: s) (simp_all add: tick_PASSIVE_keeps)

text \<open>
  The stand-up states and the passive state are closed under the loop: started as the
  thread starts, it never runs the hexapod states, the gait states or
  \<open>QUAD_CTRL_ORIENT\<close>.
\<close>

lemma tick_quad_closed:
  assumes "cur_ctrl_state s \<in> {QUAD_CTRL_STAND_UP1, QUAD_CTRL_STAND_UP2, QUAD_CTRL_STAND_UP3,
      QUAD_CTRL_PASSIVE_ORIENT}"
  shows "cur_ctrl_state (fst (tick F s i)) \<in> {QUAD_CTRL_STAND_UP1, QUAD_CTRL_STAND_UP2,
      QUAD_CTRL_STAND_UP3, QUAD_CTRL_PASSIVE_ORIENT}"
  using assms
  by (auto simp: tick_STAND_UP1 tick_STAND_UP2 tick_STAND_UP3 tick_PASSIVE_keeps
      read_state_clock_keeps prologue_keeps split: if_splits)

lemma run_quad_closed:
  "cur_ctrl_state s \<in> {QUAD_CTRL_STAND_UP1, QUAD_CTRL_STAND_UP2, QUAD_CTRL_STAND_UP3,
      QUAD_CTRL_PASSIVE_ORIENT} \<Longrightarrow>
   cur_ctrl_state (run F s ts) \<in> {QUAD_CTRL_STAND_UP1, QUAD_CTRL_STAND_UP2,
      QUAD_CTRL_STAND_UP3, QUAD_CTRL_PASSIVE_ORIENT}"
proof (induction ts arbitrary: s)
  case Nil
  then show ?case by simp
next
  case (Cons i ts)
  from tick_quad_closed [OF Cons.prems] show ?case
    unfolding run.simps by (rule Cons.IH)
qed

section \<open>The stand-up sequence\<close>

text \<open>
  Claim C1. The thread starts in \<open>QUAD_CTRL_STAND_UP1\<close> with the entry timestamp at
  \<open>t = 0\<close>. On a simulated clock (strictly increasing from tick to tick, standing still
  within a tick) that is read at 1.9 s, 3.8 s and 5.7 s, each stand-up phase is left at
  the tick where the time since its entry reaches \<open>startup_seconds\<close>, the entry
  timestamp is reset to the clock of that tick, and once the tick at 3 times 1.9 s has
  run the state is \<open>QUAD_CTRL_PASSIVE_ORIENT\<close>, with \<open>balance_body_R\<close> the orientation
  \<^verbatim>\<open>getBodyR\<close> returned in that tick; no earlier tick reaches that state.
\<close>

theorem standup_scenario:
  assumes s: "cur_ctrl_state s = QUAD_CTRL_STAND_UP1" "state_enter_time s = 0"
    and mono: "sorted_wrt (<) (map clock_state ticks)"
    and frozen: "\<forall>x\<in>set ticks. clock_enter x = clock_state x"
    and k1: "k1 < length ticks" "seconds_of (clock_state (ticks ! k1)) = startup_seconds"
    and k2: "k2 < length ticks" "seconds_of (clock_state (ticks ! k2)) = 2 * startup_seconds"
    and k3: "k3 < length ticks" "seconds_of (clock_state (ticks ! k3)) = 3 * startup_seconds"
    and n: "n \<le> length ticks"
  shows "cur_ctrl_state (run F s (take n ticks)) = phase_after k1 k2 k3 n
       \<and> state_enter_time (run F s (take n ticks)) = entered_after k1 k2 k3 n
       \<and> (k3 < n \<longrightarrow> balance_body_R (run F s (take n ticks)) = bodyR_in (ticks ! k3))"
  using n
proof (induction n)
  case 0
  then show ?case by (simp add: s phase_after_def entered_after_def)
next
  case (Suc n)
  let ?i = "ticks ! n"
  let ?s = "run F s (take n ticks)"
  from Suc have n: "n < length ticks" and IH:
    "cur_ctrl_state ?s = phase_after k1 k2 k3 n"
    "state_enter_time ?s = entered_after k1 k2 k3 n"
    "k3 < n \<longrightarrow> balance_body_R ?s = bodyR_in (ticks ! k3)"
    by simp_all
  have c1: "clock_state (ticks ! k1) = 1900000000"
    and c2: "clock_state (ticks ! k2) = 3800000000"
    and c3: "clock_state (ticks ! k3) = 5700000000"
    using k1 k2 k3 by (simp_all add: seconds_of_startup)
  have lt: "\<And>a b. a < b \<Longrightarrow> b < length ticks \<Longrightarrow>
      clock_state (ticks ! a) < clock_state (ticks ! b)"
    using mono by (simp add: sorted_wrt_iff_nth_less)
  have k12: "k1 < k2"
  proof (rule ccontr)
    assume "\<not> k1 < k2"
    then have "k2 = k1 \<or> k2 < k1" by auto
    then show False using lt[of k2 k1] k1 c1 c2 by auto
  qed
  have k23: "k2 < k3"
  proof (rule ccontr)
    assume "\<not> k2 < k3"
    then have "k3 = k2 \<or> k3 < k2" by auto
    then show False using lt[of k3 k2] k2 c2 c3 by auto
  qed
  have fr: "clock_enter ?i = clock_state ?i" using frozen n by simp
  have step: "run F s (take (Suc n) ticks) = fst (tick F ?s ?i)"
    using n by (rule run_take_Suc)
  consider "n < k1" | "n = k1" | "k1 < n" "n < k2" | "n = k2"
    | "k2 < n" "n < k3" | "n = k3" | "k3 < n"
    by linarith
  then show ?case
  proof cases
    case 1
    then have c: "clock_state ?i < 1900000000" using lt[of n k1] k1 c1 by simp
    from 1 have st: "cur_ctrl_state ?s = QUAD_CTRL_STAND_UP1" "state_enter_time ?s = 0"
      using IH by (simp_all add: phase_after_def entered_after_def)
    show ?thesis unfolding step using 1 c st k12 k23
      by (simp add: tick_STAND_UP1 phase_after_def entered_after_def
          read_state_clock_keeps prologue_keeps)
  next
    case 2
    then have c: "clock_state ?i = 1900000000" using c1 by simp
    from 2 have st: "cur_ctrl_state ?s = QUAD_CTRL_STAND_UP1" "state_enter_time ?s = 0"
      using IH by (simp_all add: phase_after_def entered_after_def)
    show ?thesis unfolding step using 2 c st k12 k23 fr
      by (simp add: tick_STAND_UP1 phase_after_def entered_after_def)
  next
    case 3
    then have c: "clock_state ?i < 3800000000" using lt[of n k2] k2 c2 by simp
    from 3 have st: "cur_ctrl_state ?s = QUAD_CTRL_STAND_UP2"
      "state_enter_time ?s = 1900000000"
      using IH by (simp_all add: phase_after_def entered_after_def)
    show ?thesis unfolding step using 3 c st k12 k23
      by (simp add: tick_STAND_UP2 phase_after_def entered_after_def
          read_state_clock_keeps prologue_keeps)
  next
    case 4
    then have c: "clock_state ?i = 3800000000" using c2 by simp
    from 4 k12 have st: "cur_ctrl_state ?s = QUAD_CTRL_STAND_UP2"
      "state_enter_time ?s = 1900000000"
      using IH by (simp_all add: phase_after_def entered_after_def)
    show ?thesis unfolding step using 4 c st k12 k23 fr
      by (simp add: tick_STAND_UP2 phase_after_def entered_after_def)
  next
    case 5
    then have c: "clock_state ?i < 5700000000" using lt[of n k3] k3 c3 by simp
    from 5 k12 have st: "cur_ctrl_state ?s = QUAD_CTRL_STAND_UP3"
      "state_enter_time ?s = 3800000000"
      using IH by (simp_all add: phase_after_def entered_after_def)
    show ?thesis unfolding step using 5 c st k12 k23
      by (simp add: tick_STAND_UP3 phase_after_def entered_after_def
          read_state_clock_keeps prologue_keeps)
  next
    case 6
    then have c: "clock_state ?i = 5700000000" using c3 by simp
    from 6 k12 k23 have st: "cur_ctrl_state ?s = QUAD_CTRL_STAND_UP3"
      "state_enter_time ?s = 3800000000"
      using IH by (simp_all add: phase_after_def entered_after_def)
    show ?thesis unfolding step using 6 c st k12 k23 fr
      by (simp add: tick_STAND_UP3 phase_after_def entered_after_def)
  next
    case 7
    from 7 k12 k23 have st: "cur_ctrl_state ?s = QUAD_CTRL_PASSIVE_ORIENT"
      "state_enter_time ?s = 5700000000" "balance_body_R ?s = bodyR_in (ticks ! k3)"
      using IH by (simp_all add: phase_after_def entered_after_def)
    show ?thesis unfolding step using 7 st k12 k23
      by (simp add: tick_PASSIVE_keeps phase_after_def entered_after_def)
  qed
qed

text \<open>
  The scenario on five ticks, at 0.95 s, 1.9 s, 3.8 s, 5.7 s and 5.705 s: after the
  fourth the state is \<open>QUAD_CTRL_PASSIVE_ORIENT\<close> and the balance target is the
  orientation read in the fourth; after the third it was \<open>QUAD_CTRL_STAND_UP3\<close>.
\<close>

theorem standup_scenario_witness:
  "cur_ctrl_state (run eigen_fromRotationMatrix (initial_ctrl 0 0 0 blank_ctrl)
      (take 4 [sim_tick 950000000 Identity3, sim_tick 1900000000 Identity3,
               sim_tick 3800000000 Identity3, sim_tick 5700000000 tilt_R,
               sim_tick 5705000000 Identity3])) = QUAD_CTRL_PASSIVE_ORIENT
   \<and> state_enter_time (run eigen_fromRotationMatrix (initial_ctrl 0 0 0 blank_ctrl)
      (take 4 [sim_tick 950000000 Identity3, sim_tick 1900000000 Identity3,
               sim_tick 3800000000 Identity3, sim_tick 5700000000 tilt_R,
               sim_tick 5705000000 Identity3])) = 5700000000
   \<and> balance_body_R (run eigen_fromRotationMatrix (initial_ctrl 0 0 0 blank_ctrl)
      (take 4 [sim_tick 950000000 Identity3, sim_tick 1900000000 Identity3,
               sim_tick 3800000000 Identity3, sim_tick 5700000000 tilt_R,
               sim_tick 5705000000 Identity3])) = tilt_R"
  using standup_scenario [of "initial_ctrl 0 0 0 blank_ctrl"
      "[sim_tick 950000000 Identity3, sim_tick 1900000000 Identity3,
        sim_tick 3800000000 Identity3, sim_tick 5700000000 tilt_R,
        sim_tick 5705000000 Identity3]" 1 2 3 4 eigen_fromRotationMatrix]
  by (simp add: initial_ctrl_def sim_tick_def seconds_of_startup
      phase_after_def entered_after_def)

section \<open>The completion flags of the stand-up phases\<close>

text \<open>
  Claim C8. In each of the three stand-up phases the flag that \<^verbatim>\<open>spreadAllLegs\<close>,
  \<^verbatim>\<open>pushAllLegs\<close> or \<^verbatim>\<open>prepareQuadMode\<close> returns is stored in \<open>isFinished\<close> every tick
  and nothing else depends on it: whatever its value \<open>b\<close>, the phase is left in a tick
  if and only if the time since the phase was entered has reached \<open>startup_seconds\<close>,
  and the new state (but for \<open>isFinished\<close>) and the calls of the tick are those of any
  other value of the flag.
\<close>

theorem standup_ignores_isFinished:
  assumes "cur_ctrl_state s \<in> {QUAD_CTRL_STAND_UP1, QUAD_CTRL_STAND_UP2, QUAD_CTRL_STAND_UP3}"
  shows "(cur_ctrl_state (fst (tick F s (i\<lparr>finished_in := b\<rparr>))) \<noteq> cur_ctrl_state s)
           = (startup_seconds \<le> seconds_of (clock_state i - state_enter_time s))
       \<and> isFinished (fst (tick F s (i\<lparr>finished_in := b\<rparr>))) = b
       \<and> fst (tick F s (i\<lparr>finished_in := b\<rparr>)) = (fst (tick F s i))\<lparr>isFinished := b\<rparr>
       \<and> snd (tick F s (i\<lparr>finished_in := b\<rparr>)) = snd (tick F s i)"
  using assms
  by (auto simp: tick_def tick_prologue_def read_state_clock_def Let_def split: if_splits)

text \<open>
  At 1.9 s into the first phase, with the flag false (the legs not yet spread) the
  phase is left all the same; at 1 s, with the flag true, it is not.
\<close>

theorem standup_ignores_isFinished_witness:
  "cur_ctrl_state (fst (tick eigen_fromRotationMatrix (initial_ctrl 0 0 0 blank_ctrl)
      ((sim_tick 1900000000 Identity3)\<lparr>finished_in := False\<rparr>))) \<noteq> QUAD_CTRL_STAND_UP1
   \<and> cur_ctrl_state (fst (tick eigen_fromRotationMatrix (initial_ctrl 0 0 0 blank_ctrl)
      ((sim_tick 1000000000 Identity3)\<lparr>finished_in := True\<rparr>))) = QUAD_CTRL_STAND_UP1"
  using standup_ignores_isFinished [where s = "initial_ctrl 0 0 0 blank_ctrl"
      and F = eigen_fromRotationMatrix and i = "sim_tick 1900000000 Identity3" and b = False, THEN conjunct1]
    standup_ignores_isFinished [where s = "initial_ctrl 0 0 0 blank_ctrl"
      and F = eigen_fromRotationMatrix and i = "sim_tick 1000000000 Identity3" and b = True, THEN conjunct1]
  by (simp add: initial_ctrl_def sim_tick_def startup_reached)

section \<open>The gait states\<close>

lemma calls_nth:
  "n < length ts \<Longrightarrow> calls F s ts ! n = snd (tick F (run F s (take n ts)) (ts ! n))"
proof (induction ts arbitrary: s n)
  case Nil
  then show ?case by simp
next
  case (Cons i ts)
  then show ?case by (cases n) simp_all
qed

lemma gait_tick:
  assumes "cur_ctrl_state s \<in> {QUAD_CTRL_NORMAL_LEFT, QUAD_CTRL_NORMAL_RIGHT}"
  shows "snd (tick F s i) = snd (tick_prologue s i) @
           RunTest (group_of (cur_ctrl_state s))
             (seconds_of (clock_state i - state_enter_time s)) leg_swing_time #
           (if leg_swing_time \<le> seconds_of (clock_state i - state_enter_time s)
            then [PrepareTrajectories (group_of (other_gait (cur_ctrl_state s))) leg_swing_time]
            else [])"
    and "cur_ctrl_state (fst (tick F s i)) =
           (if leg_swing_time \<le> seconds_of (clock_state i - state_enter_time s)
            then other_gait (cur_ctrl_state s) else cur_ctrl_state s)"
    and "state_enter_time (fst (tick F s i)) =
           (if leg_swing_time \<le> seconds_of (clock_state i - state_enter_time s)
            then clock_enter i else state_enter_time s)"
  using assms
  by (auto simp: tick_def tick_prologue_def read_state_clock_def Let_def)















section \<open>Passive balance\<close>

lemma passive_tick:
  assumes "cur_ctrl_state s = QUAD_CTRL_PASSIVE_ORIENT"
  shows "fst (tick F s i) =
     (read_state_clock (fst (tick_prologue s i)) i)
       \<lparr>bodyR := bodyR_in i,
        diff_body_R := mat_mul (balance_body_R s) (mat_transpose (bodyR_in i)),
        tmp_aa := (F (mat_mul (balance_body_R s) (mat_transpose (bodyR_in i))))
           \<lparr>angle := 31 / 1000 *
              angle (F (mat_mul (balance_body_R s) (mat_transpose (bodyR_in i))))\<rparr>,
        axis_aa := axis (F (mat_mul (balance_body_R s) (mat_transpose (bodyR_in i)))),
        control_R := mat_mul (control_R s) (toRotationMatrix
          ((F (mat_mul (balance_body_R s) (mat_transpose (bodyR_in i))))
           \<lparr>angle := 31 / 1000 *
              angle (F (mat_mul (balance_body_R s) (mat_transpose (bodyR_in i))))\<rparr>))\<rparr>"
   and "snd (tick F s i) = snd (tick_prologue s i) @
          [StartBodyRUpdate, GetBodyR, ReOrient (control_R (fst (tick F s i)))]"
  using assms
  by (simp_all add: tick_def tick_prologue_def read_state_clock_def Let_def)

lemma sqrt_64_25: "sqrt (64 / 25) = 8 / 5"
  by (rule real_sqrt_unique) (simp_all add: power2_eq_square)

lemma sqrt_9_25: "sqrt (9 / 25) = 3 / 5"
  by (rule real_sqrt_unique) (simp_all add: power2_eq_square)

lemma eigen_tilt:
  "eigen_fromRotationMatrix (mat_mul Identity3 (mat_transpose tilt_R))
     = \<lparr>angle = 2 * arctan (3 / 4), axis = (0, 0, - 1)\<rparr>"
  by (simp add: eigen_fromRotationMatrix_def Identity3_def tilt_R_def Let_def sqrt_64_25
      sqrt_9_25 atan2_def)

text \<open>
  Claim C3, as the claim has it, fails: the angular error is the angle of the
  discrepancy between the captured target and the orientation that \<^verbatim>\<open>getBodyR\<close> returns
  in the tick, and the loop does not compute that orientation. With the target the
  identity and the body read as \<open>tilt_R\<close> in two ticks in a row, the error is
  \<open>2 * arctan (3 / 4)\<close> after the first tick and the same after the second.
\<close>

theorem passive_error_not_reduced:
  "angle (eigen_fromRotationMatrix (diff_body_R (run eigen_fromRotationMatrix passive_ctrl
        [sim_tick 5000000 tilt_R]))) = 2 * arctan (3 / 4)
   \<and> 0 < 2 * arctan (3 / 4 :: real)
   \<and> angle (eigen_fromRotationMatrix (diff_body_R (run eigen_fromRotationMatrix passive_ctrl
        [sim_tick 5000000 tilt_R, sim_tick 10000000 tilt_R]))) = 2 * arctan (3 / 4)"
  by (simp add: passive_tick passive_ctrl_def blank_ctrl_def sim_tick_def
      read_state_clock_def tick_prologue_def eigen_tilt)

text \<open>
  Claim C3, amended. In \<open>QUAD_CTRL_PASSIVE_ORIENT\<close>, at every tick \<open>n\<close> of every run: the
  state stays and the captured target is kept; the discrepancy is the captured target
  times the transpose of the orientation read in the tick; its angle-axis form has the
  angle scaled by 0.031 and the axis kept; the running rotation \<open>control_R\<close> is
  multiplied on the right by that correction; and the tick calls \<^verbatim>\<open>startBodyRUpdate\<close>,
  \<^verbatim>\<open>getBodyR\<close> and \<^verbatim>\<open>reOrient\<close> with the new \<open>control_R\<close>. The discrepancy depends on
  the target and the orientation read only, so what becomes of the error is up to the
  body's response to \<^verbatim>\<open>reOrient\<close>.
\<close>

theorem passive_balance:
  assumes "cur_ctrl_state s = QUAD_CTRL_PASSIVE_ORIENT" and "n < length ticks"
  shows "cur_ctrl_state (run F s (take (Suc n) ticks)) = QUAD_CTRL_PASSIVE_ORIENT
    \<and> balance_body_R (run F s (take (Suc n) ticks)) = balance_body_R s
    \<and> diff_body_R (run F s (take (Suc n) ticks))
        = mat_mul (balance_body_R s) (mat_transpose (bodyR_in (ticks ! n)))
    \<and> tmp_aa (run F s (take (Suc n) ticks))
        = (F (diff_body_R (run F s (take (Suc n) ticks))))
            \<lparr>angle := 31 / 1000 * angle (F (diff_body_R (run F s (take (Suc n) ticks))))\<rparr>
    \<and> control_R (run F s (take (Suc n) ticks))
        = mat_mul (control_R (run F s (take n ticks)))
            (toRotationMatrix (tmp_aa (run F s (take (Suc n) ticks))))
    \<and> calls F s ticks ! n
        = snd (tick_prologue (run F s (take n ticks)) (ticks ! n)) @
          [StartBodyRUpdate, GetBodyR, ReOrient (control_R (run F s (take (Suc n) ticks)))]"
proof -
  let ?s = "run F s (take n ticks)"
  have p: "cur_ctrl_state ?s = QUAD_CTRL_PASSIVE_ORIENT" "balance_body_R ?s = balance_body_R s"
    using run_PASSIVE_keeps [OF assms(1)] by simp_all
  have c: "calls F s ticks ! n = snd (tick F ?s (ticks ! n))"
    using assms(2) by (rule calls_nth)
  show ?thesis
    unfolding run_take_Suc [OF assms(2)] c passive_tick(2) [OF p(1)]
    by (simp add: passive_tick(1) [OF p(1)] p read_state_clock_def tick_prologue_def)
qed

text \<open>
  A tick that reads \<open>tilt_R\<close> against the identity as target: the discrepancy is the
  transpose of \<open>tilt_R\<close>, and the correction has 0.031 of its angle \<open>2 * arctan (3 / 4)\<close>.
\<close>

theorem passive_balance_witness:
  "cur_ctrl_state (run eigen_fromRotationMatrix passive_ctrl
      (take (Suc 0) [sim_tick 5000000 tilt_R])) = QUAD_CTRL_PASSIVE_ORIENT
   \<and> diff_body_R (run eigen_fromRotationMatrix passive_ctrl
      (take (Suc 0) [sim_tick 5000000 tilt_R])) = mat_mul Identity3 (mat_transpose tilt_R)
   \<and> tmp_aa (run eigen_fromRotationMatrix passive_ctrl
      (take (Suc 0) [sim_tick 5000000 tilt_R]))
     = \<lparr>angle = 31 / 1000 * (2 * arctan (3 / 4)), axis = (0, 0, - 1)\<rparr>"
proof -
  have h: "cur_ctrl_state passive_ctrl = QUAD_CTRL_PASSIVE_ORIENT"
    "0 < length [sim_tick 5000000 tilt_R]"
    by (simp_all add: passive_ctrl_def)
  have v: "balance_body_R passive_ctrl = Identity3"
    "bodyR_in ([sim_tick 5000000 tilt_R] ! 0) = tilt_R"
    by (simp_all add: passive_ctrl_def blank_ctrl_def sim_tick_def)
  from passive_balance [OF h, of eigen_fromRotationMatrix]
  have c: "cur_ctrl_state (run eigen_fromRotationMatrix passive_ctrl
        (take (Suc 0) [sim_tick 5000000 tilt_R])) = QUAD_CTRL_PASSIVE_ORIENT"
    and d: "diff_body_R (run eigen_fromRotationMatrix passive_ctrl
        (take (Suc 0) [sim_tick 5000000 tilt_R])) = mat_mul Identity3 (mat_transpose tilt_R)"
    and a: "tmp_aa (run eigen_fromRotationMatrix passive_ctrl
        (take (Suc 0) [sim_tick 5000000 tilt_R]))
      = (eigen_fromRotationMatrix (diff_body_R (run eigen_fromRotationMatrix passive_ctrl
           (take (Suc 0) [sim_tick 5000000 tilt_R]))))
          \<lparr>angle := 31 / 1000 * angle (eigen_fromRotationMatrix (diff_body_R
             (run eigen_fromRotationMatrix passive_ctrl
               (take (Suc 0) [sim_tick 5000000 tilt_R]))))\<rparr>"
    by (simp_all only: v simp_thms)
  have "tmp_aa (run eigen_fromRotationMatrix passive_ctrl
        (take (Suc 0) [sim_tick 5000000 tilt_R]))
      = \<lparr>angle = 31 / 1000 * (2 * arctan (3 / 4)), axis = (0, 0, - 1)\<rparr>"
    unfolding a d eigen_tilt by simp
  with c d show ?thesis by blast
qed

section \<open>The timing of a tick\<close>

lemma need_to_wait_nonneg: "0 \<le> need_to_wait p w"
  by (simp add: need_to_wait_def)

lemma need_to_wait_overrun:
  assumes "p + 5000000 \<le> w" "w - (p + 5000000) < 2147483648 * 1000000"
  shows "need_to_wait p w = 0"
proof -
  let ?d = "p + interval_ms * 1000000 - w"
  have d: "?d \<le> 0" "- ?d < 2147483648 * 1000000"
    using assms by (simp_all add: interval_ms_def)
  have "(- ?d) div 1000000 < 2147483648"
    using d(2) by (simp add: div_less_iff_less_mult)
  moreover have "0 \<le> (- ?d) div 1000000"
    using d(1) by (simp add: pos_imp_zdiv_nonneg_iff)
  ultimately have t: "- 2147483648 < trunc_div ?d 1000000" "trunc_div ?d 1000000 \<le> 0"
    using d(1) by (auto simp: trunc_div_def)
  then have "int_cast (trunc_div ?d 1000000) = trunc_div ?d 1000000"
    by (simp add: int_cast_def)
  with t show ?thesis by (simp add: need_to_wait_def)
qed

lemma need_to_wait_residual:
  assumes "w \<le> p + 5000000" "p + 5000000 - w < 2147483648 * 1000000"
  shows "need_to_wait p w = (p + 5000000 - w) div 1000000"
proof -
  let ?d = "p + interval_ms * 1000000 - w"
  have d: "0 \<le> ?d" "?d < 2147483648 * 1000000"
    using assms by (simp_all add: interval_ms_def)
  have "?d div 1000000 < 2147483648"
    using d(2) by (simp add: div_less_iff_less_mult)
  moreover have "0 \<le> ?d div 1000000"
    using d(1) by (simp add: pos_imp_zdiv_nonneg_iff)
  ultimately have "int_cast (trunc_div ?d 1000000) = ?d div 1000000" "0 \<le> ?d div 1000000"
    using d(1) by (simp_all add: trunc_div_def int_cast_def)
  then show ?thesis by (simp add: need_to_wait_def interval_ms_def)
qed

lemma tick_clock_update:
  "tick F (s\<lparr>dt := d, prev_time := p\<rparr>) (i\<lparr>clock_wait := x, clock_tick := y\<rparr>)
   = ((fst (tick F s i))\<lparr>dt := seconds_of (y - p), prev_time := y\<rparr>,
      Sleep (need_to_wait p x) # tl (snd (tick F s i)))"
  by (cases "cur_ctrl_state s")
     (simp_all add: tick_def tick_prologue_def read_state_clock_def Let_def)

lemma tick_dt:
  "dt (fst (tick F s i)) = seconds_of (clock_tick i - prev_time s)"
  "prev_time (fst (tick F s i)) = clock_tick i"
  "hd (snd (tick F s i)) = Sleep (need_to_wait (prev_time s) (clock_wait i))"
  by (cases "cur_ctrl_state s";
      simp add: tick_def tick_prologue_def read_state_clock_def Let_def)+

text \<open>
  Claim C6, as the claim has it, fails: \<open>dt\<close> is computed and read nowhere. In
  \<open>QUAD_CTRL_PASSIVE_ORIENT\<close>, a tick 5 ms after the previous one and a tick 55 ms after
  it, with the same orientation read, have \<open>dt\<close> 0.005 and 0.055 and apply the same
  correction, of angle \<open>0.031 * (2 * arctan (3 / 4))\<close>, to \<open>control_R\<close>.
\<close>

theorem correction_ignores_dt:
  "dt (fst (tick eigen_fromRotationMatrix passive_ctrl (sim_tick 5000000 tilt_R))) = 5 / 1000
   \<and> dt (fst (tick eigen_fromRotationMatrix passive_ctrl (sim_tick 55000000 tilt_R)))
       = 55 / 1000
   \<and> tmp_aa (fst (tick eigen_fromRotationMatrix passive_ctrl (sim_tick 5000000 tilt_R)))
       = \<lparr>angle = 31 / 1000 * (2 * arctan (3 / 4)), axis = (0, 0, - 1)\<rparr>
   \<and> tmp_aa (fst (tick eigen_fromRotationMatrix passive_ctrl (sim_tick 55000000 tilt_R)))
       = \<lparr>angle = 31 / 1000 * (2 * arctan (3 / 4)), axis = (0, 0, - 1)\<rparr>
   \<and> control_R (fst (tick eigen_fromRotationMatrix passive_ctrl (sim_tick 55000000 tilt_R)))
       = control_R (fst (tick eigen_fromRotationMatrix passive_ctrl (sim_tick 5000000 tilt_R)))"
  by (simp add: passive_tick tick_dt passive_ctrl_def blank_ctrl_def sim_tick_def
      read_state_clock_def tick_prologue_def eigen_tilt seconds_of_def)

text \<open>
  Claim C6, amended. A tick first sleeps \<open>need_to_wait\<close> milliseconds: never a negative
  time, nothing when the 5 ms period since the previous tick is already over (for an
  overrun below \<open>2^31\<close> ms, the range of the cast to \<^verbatim>\<open>int\<close>), and otherwise the whole
  milliseconds of what is left of the period. It then sets \<open>dt\<close> to the clock's advance
  since the previous tick. No control state reads \<open>dt\<close> or these clock reads: changing
  them changes \<open>dt\<close>, \<open>prev_time\<close> and the sleep, and nothing else of the tick. The
  gait states pass \<^verbatim>\<open>runTest\<close> the clock's advance since the state was entered.
\<close>

theorem timing_discipline:
  "hd (snd (tick F s i)) = Sleep (need_to_wait (prev_time s) (clock_wait i))
   \<and> 0 \<le> need_to_wait (prev_time s) (clock_wait i)
   \<and> (prev_time s + 5000000 \<le> clock_wait i
        \<and> clock_wait i - (prev_time s + 5000000) < 2147483648 * 1000000
      \<longrightarrow> need_to_wait (prev_time s) (clock_wait i) = 0)
   \<and> (clock_wait i \<le> prev_time s + 5000000
        \<and> prev_time s + 5000000 - clock_wait i < 2147483648 * 1000000
      \<longrightarrow> need_to_wait (prev_time s) (clock_wait i)
            = (prev_time s + 5000000 - clock_wait i) div 1000000)
   \<and> dt (fst (tick F s i)) = seconds_of (clock_tick i - prev_time s)
   \<and> prev_time (fst (tick F s i)) = clock_tick i
   \<and> tick F (s\<lparr>dt := d, prev_time := p\<rparr>) (i\<lparr>clock_wait := x, clock_tick := y\<rparr>)
       = ((fst (tick F s i))\<lparr>dt := seconds_of (y - p), prev_time := y\<rparr>,
          Sleep (need_to_wait p x) # tl (snd (tick F s i)))
   \<and> (cur_ctrl_state s \<in> {QUAD_CTRL_NORMAL_LEFT, QUAD_CTRL_NORMAL_RIGHT}
      \<longrightarrow> RunTest (group_of (cur_ctrl_state s))
            (seconds_of (clock_state i - state_enter_time s)) leg_swing_time
          \<in> set (snd (tick F s i)))"
proof -
  have "cur_ctrl_state s \<in> {QUAD_CTRL_NORMAL_LEFT, QUAD_CTRL_NORMAL_RIGHT}
      \<Longrightarrow> RunTest (group_of (cur_ctrl_state s))
            (seconds_of (clock_state i - state_enter_time s)) leg_swing_time
          \<in> set (snd (tick F s i))"
    by (simp add: gait_tick(1))
  then show ?thesis
    using need_to_wait_overrun [where p = "prev_time s" and w = "clock_wait i"]
      need_to_wait_residual [where p = "prev_time s" and w = "clock_wait i"]
    by (simp only: tick_dt tick_clock_update need_to_wait_nonneg simp_thms) blast
qed

text \<open>
  A tick in the left gait state whose clock reads 55 ms after the previous tick (a stall
  of 50 ms) and 0.3 s after the state was entered: it does not sleep, \<open>dt\<close> is 0.055 and
  \<^verbatim>\<open>runTest\<close> gets 0.3.
\<close>

theorem timing_discipline_witness:
  "hd (snd (tick eigen_fromRotationMatrix (gait_ctrl\<lparr>prev_time := 245000000\<rparr>)
        (sim_tick 300000000 Identity3))) = Sleep 0
   \<and> dt (fst (tick eigen_fromRotationMatrix (gait_ctrl\<lparr>prev_time := 245000000\<rparr>)
        (sim_tick 300000000 Identity3))) = 55 / 1000
   \<and> RunTest swing_mode_virtualLeg1 (3 / 10) leg_swing_time
       \<in> set (snd (tick eigen_fromRotationMatrix (gait_ctrl\<lparr>prev_time := 245000000\<rparr>)
        (sim_tick 300000000 Identity3)))"
proof -
  have v: "prev_time (gait_ctrl\<lparr>prev_time := 245000000\<rparr>) = 245000000"
    "clock_wait (sim_tick 300000000 Identity3) = 300000000"
    "clock_tick (sim_tick 300000000 Identity3) = 300000000"
    "clock_state (sim_tick 300000000 Identity3) = 300000000"
    "state_enter_time (gait_ctrl\<lparr>prev_time := 245000000\<rparr>) = 0"
    "cur_ctrl_state (gait_ctrl\<lparr>prev_time := 245000000\<rparr>) = QUAD_CTRL_NORMAL_LEFT"
    by (simp_all add: gait_ctrl_def blank_ctrl_def sim_tick_def)
  have w: "seconds_of (300000000 - 245000000) = 55 / 1000"
    "seconds_of (300000000 - 0) = 3 / 10"
    by (simp_all add: seconds_of_def)
  from timing_discipline [where s = "gait_ctrl\<lparr>prev_time := 245000000\<rparr>"
      and i = "sim_tick 300000000 Identity3" and F = eigen_fromRotationMatrix]
  show ?thesis unfolding v w by simp
qed

section \<open>The velocity commands\<close>

lemma without_velocity_eq:
  "without_velocity s = without_velocity s' \<Longrightarrow>
   s' = s\<lparr>translation_velocity_cmd := translation_velocity_cmd s',
          rotation_velocity_cmd := rotation_velocity_cmd s'\<rparr>"
  by (cases s, cases s') (simp add: without_velocity_def)

lemma without_velocity_in_eq:
  "without_velocity_in i = without_velocity_in j \<Longrightarrow>
   j = i\<lparr>translation_in := translation_in j, rotation_in := rotation_in j\<rparr>"
  by (cases i, cases j) (simp add: without_velocity_in_def)

lemma tick_velocity_update:
  "tick F (s\<lparr>translation_velocity_cmd := a, rotation_velocity_cmd := b\<rparr>)
          (i\<lparr>translation_in := v, rotation_in := w\<rparr>)
   = ((fst (tick F s i))\<lparr>translation_velocity_cmd := v, rotation_velocity_cmd := w\<rparr>,
      snd (tick F s i))"
  by (cases "cur_ctrl_state s")
     (simp_all add: tick_def tick_prologue_def read_state_clock_def Let_def)

lemma tick_velocity:
  assumes "without_velocity s = without_velocity s'"
    and "without_velocity_in i = without_velocity_in j"
  shows "without_velocity (fst (tick F s i)) = without_velocity (fst (tick F s' j))
       \<and> snd (tick F s i) = snd (tick F s' j)"
proof -
  from assms(1) have s': "s' = s\<lparr>translation_velocity_cmd := translation_velocity_cmd s',
          rotation_velocity_cmd := rotation_velocity_cmd s'\<rparr>"
    by (rule without_velocity_eq)
  from assms(2) have j: "j = i\<lparr>translation_in := translation_in j,
          rotation_in := rotation_in j\<rparr>"
    by (rule without_velocity_in_eq)
  have "tick F s' j = ((fst (tick F s i))\<lparr>translation_velocity_cmd := translation_in j,
       rotation_velocity_cmd := rotation_in j\<rparr>, snd (tick F s i))"
    by (subst s', subst j) (rule tick_velocity_update)
  then show ?thesis by (simp add: without_velocity_def)
qed

lemma run_velocity:
  "map without_velocity_in is = map without_velocity_in js \<Longrightarrow>
   without_velocity s = without_velocity s' \<Longrightarrow>
   without_velocity (run F s is) = without_velocity (run F s' js)
   \<and> calls F s is = calls F s' js"
proof (induction "is" arbitrary: js s s')
  case Nil
  then show ?case by simp
next
  case (Cons i "is")
  then obtain j js' where js: "js = j # js'" by (cases js) auto
  with Cons.prems have ij: "without_velocity_in i = without_velocity_in j"
    and rest: "map without_velocity_in is = map without_velocity_in js'" by simp_all
  note t = tick_velocity [OF Cons.prems(2) ij, of F]
  from Cons.IH [OF rest conjunct1 [OF t]] t show ?case by (simp add: js)
qed

lemma tick_stores_velocity:
  "translation_velocity_cmd (fst (tick F s i)) = translation_in i"
  "rotation_velocity_cmd (fst (tick F s i)) = rotation_in i"
  by (cases "cur_ctrl_state s";
      simp add: tick_def tick_prologue_def read_state_clock_def Let_def)+

text \<open>
  Claim C9. The velocity commands are stored every tick and read by no state: two runs
  whose inputs and starting variables agree but for the velocity commands make the same
  calls in every tick, pass through the same control states, and end in states that
  agree but for the two stored velocity commands, which are those read in the last tick.
\<close>

theorem velocity_cmds_unused:
  assumes "map without_velocity_in is = map without_velocity_in js"
    and "without_velocity s = without_velocity s'"
  shows "calls F s is = calls F s' js
       \<and> without_velocity (run F s is) = without_velocity (run F s' js)
       \<and> (\<forall>n. cur_ctrl_state (run F s (take n is)) = cur_ctrl_state (run F s' (take n js)))
       \<and> translation_velocity_cmd (fst (tick F s i)) = translation_in i
       \<and> rotation_velocity_cmd (fst (tick F s i)) = rotation_in i"
proof -
  have "cur_ctrl_state (run F s (take n is)) = cur_ctrl_state (run F s' (take n js))" for n
  proof -
    from assms(1)
    have "map without_velocity_in (take n is) = map without_velocity_in (take n js)"
      by (simp add: take_map [symmetric])
    from run_velocity [OF this assms(2), of F]
    have "cur_ctrl_state (without_velocity (run F s (take n is)))
        = cur_ctrl_state (without_velocity (run F s' (take n js)))" by simp
    then show ?thesis by (simp add: without_velocity_def)
  qed
  with run_velocity [OF assms, of F] show ?thesis by (simp add: tick_stores_velocity)
qed

text \<open>
  Two ticks from the start, once with the joystick at rest and once with velocity
  commands: the calls are the same.
\<close>

theorem velocity_cmds_unused_witness:
  "calls eigen_fromRotationMatrix (initial_ctrl 0 0 0 blank_ctrl)
      [sim_tick 5000000 Identity3, sim_tick 10000000 Identity3]
   = calls eigen_fromRotationMatrix (initial_ctrl 0 0 0 blank_ctrl)
      [(sim_tick 5000000 Identity3)\<lparr>translation_in := (1, 0, 0), rotation_in := (0, 0, 1)\<rparr>,
       (sim_tick 10000000 Identity3)\<lparr>translation_in := (0, 1 / 2, 0)\<rparr>]"
proof -
  have h: "map without_velocity_in [sim_tick 5000000 Identity3, sim_tick 10000000 Identity3]
      = map without_velocity_in
         [(sim_tick 5000000 Identity3)\<lparr>translation_in := (1, 0, 0), rotation_in := (0, 0, 1)\<rparr>,
          (sim_tick 10000000 Identity3)\<lparr>translation_in := (0, 1 / 2, 0)\<rparr>]"
    by (simp add: without_velocity_in_def sim_tick_def)
  from velocity_cmds_unused [OF h refl, of eigen_fromRotationMatrix "initial_ctrl 0 0 0 blank_ctrl"]
  show ?thesis by (rule conjunct1)
qed

section \<open>The teleoperated orientation\<close>

lemma euler_zyx_product:
  "mat_mul (mat_mul (toRotationMatrix \<lparr>angle = y, axis = UnitZ\<rparr>)
                    (toRotationMatrix \<lparr>angle = p, axis = UnitY\<rparr>))
           (toRotationMatrix \<lparr>angle = r, axis = UnitX\<rparr>) = euler_zyx y p r"
  by (simp add: toRotationMatrix_def UnitZ_def UnitY_def UnitX_def Let_def euler_zyx_def
      algebra_simps)

lemma scaled_axis_bound:
  fixes x :: real
  assumes "\<bar>x\<bar> \<le> 1"
  shows "\<bar>x * 16 / 180 * pi\<bar> \<le> 16 / 180 * pi"
proof -
  from assms have "\<bar>x\<bar> * (16 / 180 * pi) \<le> 1 * (16 / 180 * pi)"
    by (intro mult_right_mono) simp_all
  then show ?thesis by (simp add: abs_mult)
qed

text \<open>
  Claim C10. In \<open>QUAD_CTRL_ORIENT\<close> a tick calls \<^verbatim>\<open>reOrient\<close> with the rotation of yaw 0,
  pitch the right vertical axis times 16 degrees and roll the left vertical axis times
  16 degrees (in radians), whatever the other inputs and variables are, and stays in the
  state; for raw axis values of magnitude at most 1 the pitch and the roll have
  magnitude at most 16 degrees.
\<close>

theorem orient_target:
  assumes "cur_ctrl_state s = QUAD_CTRL_ORIENT"
  shows "snd (tick F s i) = snd (tick_prologue s i) @
           [StartBodyRUpdate, PrintAxes (right_vert i) (left_vert i),
            ReOrient (euler_zyx 0 (right_vert i * 16 / 180 * pi) (left_vert i * 16 / 180 * pi))]
       \<and> cur_ctrl_state (fst (tick F s i)) = QUAD_CTRL_ORIENT
       \<and> (\<bar>right_vert i\<bar> \<le> 1 \<longrightarrow> \<bar>right_vert i * 16 / 180 * pi\<bar> \<le> 16 / 180 * pi)
       \<and> (\<bar>left_vert i\<bar> \<le> 1 \<longrightarrow> \<bar>left_vert i * 16 / 180 * pi\<bar> \<le> 16 / 180 * pi)"
  using assms scaled_axis_bound [of "right_vert i"] scaled_axis_bound [of "left_vert i"]
  by (simp add: tick_def tick_prologue_def read_state_clock_def Let_def euler_zyx_product
      del: times_divide_eq_left times_divide_eq_right)

text \<open>
  With the right stick fully up and the left stick half down the target has pitch 16
  degrees and roll minus 8 degrees.
\<close>

theorem orient_target_witness:
  "last (snd (tick eigen_fromRotationMatrix orient_ctrl
      ((sim_tick 5000000 Identity3)\<lparr>right_vert := 1, left_vert := - (1 / 2)\<rparr>)))
     = ReOrient (euler_zyx 0 (1 * 16 / 180 * pi) (- (1 / 2) * 16 / 180 * pi))
   \<and> \<bar>1 * 16 / 180 * pi\<bar> \<le> 16 / 180 * pi"
proof -
  have h: "cur_ctrl_state orient_ctrl = QUAD_CTRL_ORIENT"
    by (simp add: orient_ctrl_def)
  have v: "right_vert ((sim_tick 5000000 Identity3)\<lparr>right_vert := 1, left_vert := - (1 / 2)\<rparr>)
      = 1"
    "left_vert ((sim_tick 5000000 Identity3)\<lparr>right_vert := 1, left_vert := - (1 / 2)\<rparr>)
      = - (1 / 2)"
    by simp_all
  from orient_target [OF h, of eigen_fromRotationMatrix
      "(sim_tick 5000000 Identity3)\<lparr>right_vert := 1, left_vert := - (1 / 2)\<rparr>"]
  show ?thesis unfolding v by simp
qed

section \<open>Unreachable foot targets\<close>

text \<open>
  Claim C4. For a foot target whose distance from the hip is greater than the sum of
  the link lengths, or less than the absolute value of their difference, \<open>computeIK\<close>
  returns the failure \<open>UnreachableTarget\<close>, whatever the kinematic solver and the seed
  are, and so no angle set.
\<close>

theorem computeIK_unreachable:
  assumes "upper_link g + lower_link g < hip_distance target
         \<or> hip_distance target < \<bar>upper_link g - lower_link g\<bar>"
  shows "computeIK solveIK g target seed = Inl UnreachableTarget
       \<and> (\<forall>a. computeIK solveIK g target seed \<noteq> Inr a)"
  using assms by (simp add: computeIK_def)

text \<open>
  A leg with links 2 and 1: the hip itself is nearer than 1 and a target at distance 4
  is farther than 3; a solver that would answer with the seed is not asked.
\<close>

theorem computeIK_unreachable_witness:
  "computeIK (\<lambda>seed target. Some seed) \<lparr>upper_link = 2, lower_link = 1\<rparr> (0, 0, 0) (0, 0, 0)
     = Inl UnreachableTarget
   \<and> computeIK (\<lambda>seed target. Some seed) \<lparr>upper_link = 2, lower_link = 1\<rparr> (0, 4, 0) (0, 0, 0)
     = Inl UnreachableTarget"
proof -
  have s: "sqrt 16 = 4"
    by (rule real_sqrt_unique) (simp_all add: power2_eq_square)
  have a: "upper_link \<lparr>upper_link = 2, lower_link = 1\<rparr> + lower_link \<lparr>upper_link = 2, lower_link = 1\<rparr>
           < hip_distance (0, 0, 0)
         \<or> hip_distance (0, 0, 0)
           < \<bar>upper_link \<lparr>upper_link = 2, lower_link = 1\<rparr> - lower_link \<lparr>upper_link = 2, lower_link = 1\<rparr>\<bar>"
    by simp
  have b: "upper_link \<lparr>upper_link = 2, lower_link = 1\<rparr> + lower_link \<lparr>upper_link = 2, lower_link = 1\<rparr>
           < hip_distance (0, 4, 0)
         \<or> hip_distance (0, 4, 0)
           < \<bar>upper_link \<lparr>upper_link = 2, lower_link = 1\<rparr> - lower_link \<lparr>upper_link = 2, lower_link = 1\<rparr>\<bar>"
    by (simp add: s)
  from computeIK_unreachable [OF a, of "\<lambda>seed target. Some seed" "(0, 0, 0)"]
    computeIK_unreachable [OF b, of "\<lambda>seed target. Some seed" "(0, 0, 0)"]
  show ?thesis by blast
qed

section \<open>Leg commands on an IK failure\<close>

lemma ik_reports_mem:
  "k < length rs \<Longrightarrow> rs ! k = Inl e \<Longrightarrow> (b + k, e) \<in> set (ik_reports b rs)"
proof (induction b rs arbitrary: k rule: ik_reports.induct)
  case (1 k)
  then show ?case by simp
next
  case (2 b e' rs)
  then show ?case
  proof (cases k)
    case 0
    with 2 show ?thesis by simp
  next
    case (Suc m)
    with 2 have "(Suc b + m, e) \<in> set (ik_reports (Suc b) rs)" by simp
    with Suc show ?thesis by simp
  qed
next
  case (3 b a rs)
  then show ?case
  proof (cases k)
    case 0
    with 3 show ?thesis by simp
  next
    case (Suc m)
    with 3 have "(Suc b + m, e) \<in> set (ik_reports (Suc b) rs)" by simp
    with Suc show ?thesis by simp
  qed
qed

text \<open>
  Claim C5. When the IK call of leg \<open>k\<close> fails in a tick, the new command vector has an
  entry for every leg, the entry of leg \<open>k\<close> holds the joint angles of the previous
  tick, and the failure of leg \<open>k\<close> is among the reported ones; a leg whose call
  succeeds is commanded the angles found.
\<close>

theorem failed_leg_holds_command:
  assumes "length rs = length cs" and "k < length cs"
  shows "length (fst (command_legs bound rs cs)) = length cs
       \<and> (\<forall>e. rs ! k = Inl e \<longrightarrow>
            joint_cmd (fst (command_legs bound rs cs) ! k) = joint_cmd (cs ! k)
            \<and> (k, e) \<in> set (fst (snd (command_legs bound rs cs))))
       \<and> (\<forall>a. rs ! k = Inr a \<longrightarrow> joint_cmd (fst (command_legs bound rs cs) ! k) = a)"
  using assms ik_reports_mem [of k rs _ 0]
  by (auto simp: command_legs_def command_leg_def Let_def)

text \<open>
  Four legs, the IK of leg 2 failing: its command stays the previous one, the failure
  is reported, and leg 0 gets its new angles.
\<close>

theorem failed_leg_holds_command_witness:
  "joint_cmd (fst (command_legs 3
      [Inr (1, 1, 1), Inr (1, 1, 1), Inl UnreachableTarget, Inr (1, 1, 1)]
      [\<lparr>joint_cmd = (0, 1 / 2, 1), ik_failures = 0\<rparr>, \<lparr>joint_cmd = (0, 1 / 2, 1), ik_failures = 0\<rparr>,
       \<lparr>joint_cmd = (0, 1 / 4, 1), ik_failures = 0\<rparr>, \<lparr>joint_cmd = (0, 1 / 2, 1), ik_failures = 0\<rparr>])
      ! 2) = (0, 1 / 4, 1)
   \<and> (2, UnreachableTarget) \<in> set (fst (snd (command_legs 3
      [Inr (1, 1, 1), Inr (1, 1, 1), Inl UnreachableTarget, Inr (1, 1, 1)]
      [\<lparr>joint_cmd = (0, 1 / 2, 1), ik_failures = 0\<rparr>, \<lparr>joint_cmd = (0, 1 / 2, 1), ik_failures = 0\<rparr>,
       \<lparr>joint_cmd = (0, 1 / 4, 1), ik_failures = 0\<rparr>, \<lparr>joint_cmd = (0, 1 / 2, 1), ik_failures = 0\<rparr>])))"
proof -
  have h: "length [Inr (1, 1, 1), Inr (1, 1, 1), Inl UnreachableTarget, Inr (1::real, 1::real, 1::real)]
      = length [\<lparr>joint_cmd = (0, 1 / 2, 1), ik_failures = 0\<rparr>,
                \<lparr>joint_cmd = (0, 1 / 2, 1), ik_failures = 0\<rparr>,
                \<lparr>joint_cmd = (0, 1 / 4, 1), ik_failures = 0\<rparr>,
                \<lparr>joint_cmd = (0, 1 / 2, 1), ik_failures = 0\<rparr>]"
    "2 < length [\<lparr>joint_cmd = (0, 1 / 2, 1), ik_failures = 0\<rparr>,
                \<lparr>joint_cmd = (0, 1 / 2, 1), ik_failures = 0\<rparr>,
                \<lparr>joint_cmd = (0, 1 / 4, 1), ik_failures = 0\<rparr>,
                \<lparr>joint_cmd = (0, 1 / 2, 1), ik_failures = 0\<rparr>]"
    by simp_all
  from failed_leg_holds_command [OF h, of 3]
  show ?thesis by simp
qed

end
